theory Spec2Isabelle
  imports Main "HOL-Library.Word"
begin

section \<open>Severity levels and configuration (config.go)\<close>

text \<open>
  \<^verbatim>\<open>type Level uint\<close> with the constants \<^verbatim>\<open>LevelFirst = iota\<close> \<dots> \<^verbatim>\<open>LevelLast\<close>.
  Go's \<^verbatim>\<open>uint\<close> is taken at its 64-bit width; the levels are only compared, never
  added, so the width plays no part below.
\<close>

type_synonym Level = "64 word"

definition LevelFirst :: Level where "LevelFirst = 0"
definition LevelCritical :: Level where "LevelCritical = 1"
definition LevelError :: Level where "LevelError = 2"
definition LevelWarn :: Level where "LevelWarn = 3"
definition LevelInfo :: Level where "LevelInfo = 4"
definition LevelDebug :: Level where "LevelDebug = 5"
definition LevelLast :: Level where "LevelLast = 6"

record Config =
  ProjectID :: string
  Level :: Level
  Development :: bool
  KeyRequestID :: string
  KeyUserID :: string
  KeyError :: string
  KeyScope :: string

section \<open>Values of type \<^verbatim>\<open>interface{}\<close>\<close>

text \<open>
  The dynamic values that \<^verbatim>\<open>parseLabels\<close> and the context lookups inspect. The first
  seven constructors are the cases of the type switch in \<^verbatim>\<open>parseLabels\<close>; a pointer is
  \<open>None\<close> when nil. \<open>string\<close> is a byte list, so a \<^verbatim>\<open>[]byte\<close> and the Go string made
  from it are the same list. Go's \<^verbatim>\<open>int\<close> is taken at 64 bits.

  Every other dynamic type reaches the \<^verbatim>\<open>default:\<close> branch and is an \<open>other\<close>: the nil
  interface, the two narrow signed integers, an error-shaped value (a value whose type
  implements \<^verbatim>\<open>error\<close>; none of the switch's own types does) given by its
  \<^verbatim>\<open>Error()\<close> message and its \<^verbatim>\<open>%+v\<close> rendering, and any remaining value given by its
  \<^verbatim>\<open>%+v\<close> rendering.
\<close>

datatype other =
    ONil
  | OInt8 "8 word"
  | OInt16 "16 word"
  | OError string string
  | OOpaque string

datatype goval =
    VString string
  | VStringPtr "string option"
  | VBytes string
  | VBytesPtr "string option"
  | VInt "64 word"
  | VInt32 "32 word"
  | VInt64 "64 word"
  | VOther other

subsection \<open>\<^verbatim>\<open>strconv.Itoa\<close> and \<^verbatim>\<open>fmt.Sprintf("%+v", v)\<close>\<close>

definition digit_char :: "nat \<Rightarrow> char" where
  "digit_char d = ''0123456789'' ! d"

function dec_digits :: "nat \<Rightarrow> string" where
  "dec_digits n =
     (if n < 10 then [digit_char n] else dec_digits (n div 10) @ [digit_char (n mod 10)])"
  by pat_completeness auto
termination
  by (relation "measure (\<lambda>n. n)") auto

declare dec_digits.simps [simp del]

definition Itoa :: "int \<Rightarrow> string" where
  "Itoa i = (if i < 0 then CHR ''-'' # dec_digits (nat (- i)) else dec_digits (nat i))"

text \<open>
  \<^verbatim>\<open>fmt.Sprintf("%+v", v)\<close> on the values of the \<^verbatim>\<open>default:\<close> branch. The plus flag
  of \<^verbatim>\<open>%+v\<close> selects field names in structs and puts no sign on an integer.
\<close>

fun Sprintf_plus_v :: "other \<Rightarrow> string" where
  "Sprintf_plus_v ONil = ''<nil>''"
| "Sprintf_plus_v (OInt8 i) = Itoa (sint i)"
| "Sprintf_plus_v (OInt16 i) = Itoa (sint i)"
| "Sprintf_plus_v (OError m d) = d"
| "Sprintf_plus_v (OOpaque d) = d"

section \<open>Fields, events and the process state\<close>

text \<open>
  A request-scoped \<^verbatim>\<open>context.Context\<close>: the trace id and span id of its span context,
  already in their string form, and the values stored under string keys (\<open>VOther ONil\<close>
  when the key is absent).
\<close>

record "context" =
  traceID :: string
  spanID :: string
  ctx_Value :: "string \<Rightarrow> goval"

record request =
  EscapedPath :: string
  Header :: "string \<rightharpoonup> string list"
  RemoteAddr :: string
  req_Context :: "context"

record http_payload =
  pl_request :: request
  pl_status :: int
  pl_latency :: string

text \<open>The fields built by \<^verbatim>\<open>zapdriver\<close>, one constructor for each call of the source.\<close>

datatype field =
    Label string string
  | SourceLocation "nat \<times> string \<times> int \<times> bool"
  | TraceContext string string bool string
  | HTTP_field http_payload

datatype zlevel = ZDebug | ZInfo | ZWarn | ZError | ZFatal

text \<open>
  Every call that leaves the package is recorded as an event, in program order:
  message formatting, reads of the trace provider, the stack walk, context lookups, the
  clock, the wrapped handler, and the calls on the Sink.
\<close>

datatype event =
    EvSprintf string "goval list"
  | EvSpanContext
  | EvCaller nat
  | EvCtxValue string
  | EvNow
  | EvSince
  | EvNext
  | EvSink zlevel string "field list"
  | EvSync
  | EvExit

datatype builder = ZapDevelopment | DriverDevelopment | DriverProduction

datatype logger = Logger builder

text \<open>
  The package-level variables of logging.go, the event trace, and the request being
  served (its \<^verbatim>\<open>gin.Context\<close>): the request, the response status, the matched route
  and the position reached in the handler chain; and the clock.
\<close>

record world =
  logLevel :: Level
  projectID :: string
  keyRequestID :: string
  keyUserID :: string
  keyError :: string
  keyScope :: string
  zlogger :: "logger option"
  events :: "event list"
  Request :: request
  Writer_Status :: int
  FullPath :: string
  clock :: int
  index :: int

definition keyRemoteIP :: string where "keyRemoteIP = ''remote_ip''"
definition keyRoute :: string where "keyRoute = ''route''"

text \<open>The package variables as their initialisers leave them, before \<^verbatim>\<open>Initialize\<close>.\<close>

definition empty_context :: "context" where
  "empty_context =
     \<lparr>traceID = ''00000000000000000000000000000000'', spanID = ''0000000000000000'',
      ctx_Value = (\<lambda>k. VOther ONil)\<rparr>"

definition empty_request :: request where
  "empty_request =
     \<lparr>EscapedPath = ''/'', Header = Map.empty, RemoteAddr = '''', req_Context = empty_context\<rparr>"

definition init_world :: world where
  "init_world =
     \<lparr>logLevel = LevelDebug, projectID = '''', keyRequestID = ''request_id'',
      keyUserID = ''user_id'', keyError = ''err'', keyScope = ''scope'',
      zlogger = None, events = [], Request = empty_request, Writer_Status = 200,
      FullPath = '''', clock = 0, index = - 1\<rparr>"

text \<open>
  How a call ends: it returns (with a value), it panics, or the process has exited. Each
  carries the state it leaves behind.
\<close>

datatype 'a outcome = Returned 'a world | Panicked world | Exited world

fun final :: "'a outcome \<Rightarrow> world" where
  "final (Returned a w) = w"
| "final (Panicked w) = w"
| "final (Exited w) = w"

text \<open>
  The collaborators outside the package whose results the code only passes on:
  \<^verbatim>\<open>fmt.Sprintf\<close>, \<^verbatim>\<open>runtime.Caller\<close>, \<^verbatim>\<open>time.Duration.String\<close>, and the three
  constructors of the Sink, each returning a logger (nil or not) and an error (nil or not).
\<close>

record ext =
  fmt_Sprintf :: "string \<Rightarrow> goval list \<Rightarrow> string"
  runtime_Caller :: "nat \<Rightarrow> nat \<times> string \<times> int \<times> bool"
  Duration_String :: "int \<Rightarrow> string"
  Build :: "builder \<Rightarrow> logger option \<times> string option"

section \<open>The Sink\<close>

text \<open>
  Modelled from the spec: the Sink (the \<^verbatim>\<open>*zap.Logger\<close> held in \<^verbatim>\<open>zlogger\<close>, a
  collaborator outside src/). A submission hands the Sink a severity, a message and the
  ordered fields. A submission at fatal severity is followed by a flush of the Sink and
  by the termination of the process (spec sections 5 and 6: the Sink is flushed
  immediately before a fatal exit). A method call on the nil logger dereferences nil and
  panics.
\<close>

definition zlogger_log :: "zlevel \<Rightarrow> string \<Rightarrow> field list \<Rightarrow> world \<Rightarrow> unit outcome" where
  "zlogger_log lvl msg flds w =
     (case zlogger w of
        None \<Rightarrow> Panicked w
      | Some l \<Rightarrow>
          if lvl = ZFatal
          then Exited (w\<lparr>events := events w @ [EvSink ZFatal msg flds, EvSync, EvExit]\<rparr>)
          else Returned () (w\<lparr>events := events w @ [EvSink lvl msg flds]\<rparr>))"

definition zlogger_Sync :: "world \<Rightarrow> unit outcome" where
  "zlogger_Sync w = Returned () (w\<lparr>events := events w @ [EvSync]\<rparr>)"

section \<open>logging.go\<close>

subsection \<open>\<^verbatim>\<open>Initialize\<close> and \<^verbatim>\<open>Finalize\<close>\<close>

text \<open>
  \<^verbatim>\<open>c\<close> is \<open>None\<close> when nil. The assignments from \<^verbatim>\<open>c\<close> come first; then the Sink is
  built, and \<^verbatim>\<open>zlogger\<close> receives whatever the constructor returned, also when it
  returned an error. With \<^verbatim>\<open>c\<close> nil and a project id left by an earlier call,
  \<^verbatim>\<open>c.Development\<close> dereferences nil.
\<close>

definition Initialize :: "ext \<Rightarrow> Config option \<Rightarrow> world \<Rightarrow> string option outcome" where
  "Initialize x c w =
     (let w1 = (case c of
                  Some cfg \<Rightarrow>
                    w\<lparr>logLevel := Level cfg, projectID := ProjectID cfg,
                      keyRequestID := KeyRequestID cfg, keyUserID := KeyUserID cfg,
                      keyError := KeyError cfg, keyScope := KeyScope cfg\<rparr>
                | None \<Rightarrow> w)
      in if projectID w1 = ''''
         then (let (l, err) = Build x ZapDevelopment
               in Returned err (w1\<lparr>zlogger := l\<rparr>))
         else (case c of
                 None \<Rightarrow> Panicked w1
               | Some cfg \<Rightarrow>
                   if Development cfg
                   then (let (l, err) = Build x DriverDevelopment
                         in Returned err (w1\<lparr>zlogger := l\<rparr>))
                   else (let (l, err) = Build x DriverProduction
                         in Returned err (w1\<lparr>zlogger := l\<rparr>))))"

definition Finalize :: "world \<Rightarrow> unit outcome" where
  "Finalize w = (if zlogger w \<noteq> None then zlogger_Sync w else Returned () w)"

subsection \<open>\<^verbatim>\<open>parseLabels\<close>\<close>

text \<open>
  The body of the loop for one pair \<^verbatim>\<open>key, val := args[i], args[i+1]\<close>: the fields it
  appends. A key that is not a string appends nothing.
\<close>

definition parseLabels_pair :: "world \<Rightarrow> goval \<Rightarrow> goval \<Rightarrow> field list" where
  "parseLabels_pair w key val =
     (case key of
        VString keyStr \<Rightarrow>
          if keyStr = ''error'' \<or> keyStr = keyError w
          then (case val of
                  VOther (OError m d) \<Rightarrow> [Label (keyError w) m]
                | _ \<Rightarrow> [])
          else (case val of
                  VString v \<Rightarrow> [Label keyStr v]
                | VStringPtr p \<Rightarrow> (case p of Some v \<Rightarrow> [Label keyStr v] | None \<Rightarrow> [])
                | VBytes v \<Rightarrow> [Label keyStr v]
                | VBytesPtr p \<Rightarrow> (case p of Some v \<Rightarrow> [Label keyStr v] | None \<Rightarrow> [])
                | VInt v \<Rightarrow> [Label keyStr (Itoa (sint v))]
                | VInt32 v \<Rightarrow> [Label keyStr (Itoa (sint (scast v :: 64 word)))]
                | VInt64 v \<Rightarrow> [Label keyStr (Itoa (sint (scast v :: 64 word)))]
                | VOther v \<Rightarrow> [Label keyStr (Sprintf_plus_v v)])
      | _ \<Rightarrow> [])"

text \<open>
  The loop \<^verbatim>\<open>for i := 0; i < len(args); { if i == len(args)-1 { break }; \<dots>; i += 2 }\<close>
  with its accumulator \<^verbatim>\<open>fields\<close> (here \<open>flds\<close>).
\<close>

function parseLabels_loop :: "world \<Rightarrow> goval list \<Rightarrow> nat \<Rightarrow> field list \<Rightarrow> field list" where
  "parseLabels_loop w args i flds =
     (if i < length args
      then (if i = length args - 1 then flds
            else parseLabels_loop w args (i + 2)
                   (flds @ parseLabels_pair w (args ! i) (args ! (i + 1))))
      else flds)"
  by pat_completeness auto
termination
  by (relation "measure (\<lambda>(w, args, i, flds). length args - i)") auto

declare parseLabels_loop.simps [simp del]

text \<open>
  A returned slice is \<open>None\<close> when it is nil; \<open>elems\<close> is the sequence of its elements. An
  argument slice is the list of its elements (nil and empty both have length 0).
\<close>

definition elems :: "'a list option \<Rightarrow> 'a list" where
  "elems s = (case s of None \<Rightarrow> [] | Some xs \<Rightarrow> xs)"

definition parseLabels :: "world \<Rightarrow> goval list \<Rightarrow> field list option" where
  "parseLabels w args =
     (if length args = 0 then None else Some (parseLabels_loop w args 0 []))"

subsection \<open>\<^verbatim>\<open>zlog\<close> and the leveled entry points\<close>

definition zlog ::
  "ext \<Rightarrow> context \<Rightarrow> Level \<Rightarrow> string \<Rightarrow> goval list \<Rightarrow> goval list \<Rightarrow> world \<Rightarrow> unit outcome"
where
  "zlog x ctx level format args keysAndValues w =
     (if level \<le> LevelFirst \<or> level \<ge> LevelLast \<or> level > logLevel w
      then Returned () w
      else
        let msg = fmt_Sprintf x format args;
            requestID = traceID ctx;
            spanID = spanID ctx;
            fields0 = [Label (keyRequestID w) requestID, SourceLocation (runtime_Caller x 2)];
            fields1 = (if projectID w \<noteq> ''''
                       then fields0 @ [TraceContext requestID spanID True (projectID w)]
                       else fields0);
            fields2 = (case ctx_Value ctx (keyUserID w) of
                         VString userID \<Rightarrow> fields1 @ [Label (keyUserID w) userID]
                       | _ \<Rightarrow> fields1);
            fields3 = (case ctx_Value ctx (keyScope w) of
                         VString scope \<Rightarrow> fields2 @ [Label (keyScope w) scope]
                       | _ \<Rightarrow> fields2);
            flds = fields3 @ elems (parseLabels w keysAndValues);
            w' = w\<lparr>events := events w @
                    [EvSprintf format args, EvSpanContext, EvSpanContext, EvCaller 2,
                     EvCtxValue (keyUserID w), EvCtxValue (keyScope w)]\<rparr>
        in if level = LevelInfo then zlogger_log ZInfo msg flds w'
           else if level = LevelError then zlogger_log ZError msg flds w'
           else if level = LevelCritical then zlogger_log ZFatal msg flds w'
           else if level = LevelWarn then zlogger_log ZWarn msg flds w'
           else zlogger_log ZDebug msg flds w')"

definition Critical :: "ext \<Rightarrow> context \<Rightarrow> string \<Rightarrow> goval list \<Rightarrow> world \<Rightarrow> unit outcome" where
  "Critical x ctx format args w = zlog x ctx LevelCritical format args [] w"

definition Error :: "ext \<Rightarrow> context \<Rightarrow> string \<Rightarrow> goval list \<Rightarrow> world \<Rightarrow> unit outcome" where
  "Error x ctx format args w = zlog x ctx LevelError format args [] w"

definition Errorw :: "ext \<Rightarrow> context \<Rightarrow> string \<Rightarrow> goval list \<Rightarrow> world \<Rightarrow> unit outcome" where
  "Errorw x ctx msg keysAndValues w = zlog x ctx LevelError msg [] keysAndValues w"

definition Warn :: "ext \<Rightarrow> context \<Rightarrow> string \<Rightarrow> goval list \<Rightarrow> world \<Rightarrow> unit outcome" where
  "Warn x ctx format args w = zlog x ctx LevelWarn format args [] w"

definition Info :: "ext \<Rightarrow> context \<Rightarrow> string \<Rightarrow> goval list \<Rightarrow> world \<Rightarrow> unit outcome" where
  "Info x ctx format args w = zlog x ctx LevelInfo format args [] w"

definition Infow :: "ext \<Rightarrow> context \<Rightarrow> string \<Rightarrow> goval list \<Rightarrow> world \<Rightarrow> unit outcome" where
  "Infow x ctx msg keysAndValues w = zlog x ctx LevelInfo msg [] keysAndValues w"

definition Debug :: "ext \<Rightarrow> context \<Rightarrow> string \<Rightarrow> goval list \<Rightarrow> world \<Rightarrow> unit outcome" where
  "Debug x ctx format args w = zlog x ctx LevelDebug format args [] w"

subsection \<open>\<^verbatim>\<open>HTTP\<close>\<close>

text \<open>
  \<^verbatim>\<open>http.Header\<close> is a map from canonical keys to value lists. \<^verbatim>\<open>Get\<close> and \<^verbatim>\<open>Add\<close>
  canonicalise the key they are given (\<^verbatim>\<open>textproto.CanonicalMIMEHeaderKey\<close>): a key of
  token bytes gets an upper-case letter at its start and after each hyphen and lower-case
  letters elsewhere; any other key is left as it is.
\<close>

definition validHeaderFieldByte :: "char \<Rightarrow> bool" where
  "validHeaderFieldByte c =
     (let n = (of_char c :: nat)
      in (48 \<le> n \<and> n \<le> 57) \<or> (65 \<le> n \<and> n \<le> 90) \<or> (97 \<le> n \<and> n \<le> 122)
         \<or> n \<in> set [33, 35, 36, 37, 38, 39, 42, 43, 45, 46, 94, 95, 96, 124, 126])"

fun canon_bytes :: "bool \<Rightarrow> string \<Rightarrow> string" where
  "canon_bytes upper [] = []"
| "canon_bytes upper (c # cs) =
     (let n = (of_char c :: nat);
          c' = (if upper \<and> 97 \<le> n \<and> n \<le> 122 then char_of (n - 32)
                else if \<not> upper \<and> 65 \<le> n \<and> n \<le> 90 then char_of (n + 32)
                else c)
      in c' # canon_bytes (c' = CHR ''-'') cs)"

definition CanonicalMIMEHeaderKey :: "string \<Rightarrow> string" where
  "CanonicalMIMEHeaderKey s = (if list_all validHeaderFieldByte s then canon_bytes True s else s)"

definition Header_Get :: "(string \<rightharpoonup> string list) \<Rightarrow> string \<Rightarrow> string" where
  "Header_Get h key =
     (case h (CanonicalMIMEHeaderKey key) of
        None \<Rightarrow> ''''
      | Some [] \<Rightarrow> ''''
      | Some (v # vs) \<Rightarrow> v)"

definition Header_Add ::
  "(string \<rightharpoonup> string list) \<Rightarrow> string \<Rightarrow> string \<Rightarrow> (string \<rightharpoonup> string list)"
where
  "Header_Add h key val =
     (let k = CanonicalMIMEHeaderKey key
      in h(k \<mapsto> (case h k of None \<Rightarrow> [] | Some vs \<Rightarrow> vs) @ [val]))"

text \<open>
  \<^verbatim>\<open>res\<close> is the status code of the \<^verbatim>\<open>http.Response\<close>, the only field the caller sets.
  No level is consulted on this path.
\<close>

definition HTTP ::
  "ext \<Rightarrow> context \<Rightarrow> request \<Rightarrow> int \<Rightarrow> string \<Rightarrow> int \<Rightarrow> world \<Rightarrow> unit outcome"
where
  "HTTP x ctx req res path latency w =
     (let requestID = traceID ctx;
          spanID = spanID ctx;
          payload = \<lparr>pl_request = req, pl_status = res, pl_latency = Duration_String x latency\<rparr>;
          fields0 = [HTTP_field payload,
                     Label (keyRequestID w) requestID,
                     Label keyRemoteIP (Header_Get (Header req) ''true-client-ip''),
                     Label keyRoute path];
          fields1 = (if projectID w \<noteq> ''''
                     then fields0 @ [TraceContext requestID spanID True (projectID w)]
                     else fields0);
          fields2 = (case ctx_Value ctx (keyUserID w) of
                       VString userID \<Rightarrow> fields1 @ [Label (keyUserID w) userID]
                     | _ \<Rightarrow> fields1);
          fields3 = (case ctx_Value ctx (keyScope w) of
                       VString scope \<Rightarrow> fields2 @ [Label (keyScope w) scope]
                     | _ \<Rightarrow> fields2);
          w' = w\<lparr>events := events w @
                  [EvSpanContext, EvSpanContext,
                   EvCtxValue (keyUserID w), EvCtxValue (keyScope w)]\<rparr>
      in zlogger_log ZInfo ''request log'' fields3 w')"

section \<open>middleware.go\<close>

text \<open>\<^verbatim>\<open>strings.Split(s, sep)\<close> for a separator of one byte.\<close>

fun Split :: "string \<Rightarrow> char \<Rightarrow> string list" where
  "Split [] sep = [[]]"
| "Split (c # cs) sep =
     (if c = sep then [] # Split cs sep
      else (case Split cs sep of [] \<Rightarrow> [[c]] | p # ps \<Rightarrow> (c # p) # ps))"

text \<open>The set built from \<^verbatim>\<open>excludes\<close> when the middleware is constructed.\<close>

definition requestLogExcludes :: "string list \<Rightarrow> (string \<rightharpoonup> unit)" where
  "requestLogExcludes excludes = foldl (\<lambda>m s. m(s \<mapsto> ())) Map.empty excludes"

text \<open>
  The client address the handler function derives: \<^verbatim>\<open>forwardChain[0]\<close> when the chain is
  not empty and its first component is not the empty string, otherwise
  \<^verbatim>\<open>strings.Split(ctx.Request.RemoteAddr, ":")[0]\<close>, an index that panics on an empty
  slice (\<open>None\<close>).
\<close>

definition remoteIP :: "request \<Rightarrow> string option" where
  "remoteIP req =
     (let forwardChain = Split (Header_Get (Header req) ''X-Forwarded-For'') CHR '',''
      in if length forwardChain > 0 \<and> forwardChain ! 0 \<noteq> ''''
         then Some (forwardChain ! 0)
         else (case Split (RemoteAddr req) CHR '':'' of
                 [] \<Rightarrow> None
               | a # as \<Rightarrow> Some a))"

text \<open>
  The handler function returned by \<^verbatim>\<open>RequestLogger(excludes)\<close>, run on the request held
  in the state. \<open>Next\<close> is \<^verbatim>\<open>ctx.Next()\<close>, which runs the wrapped handler: it may change
  the whole state, advance the clock, panic or exit. The early return on an excluded
  path is a plain \<^verbatim>\<open>return\<close>: the chain is not aborted.
\<close>

definition RequestLogger ::
  "ext \<Rightarrow> string list \<Rightarrow> (world \<Rightarrow> unit outcome) \<Rightarrow> world \<Rightarrow> unit outcome"
where
  "RequestLogger x excludes Next w =
     (let url = EscapedPath (Request w)
      in if requestLogExcludes excludes url \<noteq> None then Returned () w
         else
           (case remoteIP (Request w) of
              None \<Rightarrow> Panicked w
            | Some ip \<Rightarrow>
                let h1 = Header_Add (Header (Request w)) ''x-forwarded-for'' ip;
                    h2 = Header_Add h1 ''true-client-ip'' ip;
                    w1 = w\<lparr>Request := (Request w)\<lparr>Header := h2\<rparr>\<rparr>;
                    start = clock w1;
                    w2 = w1\<lparr>events := events w1 @ [EvNow, EvNext]\<rparr>
                in (case Next w2 of
                      Panicked w3 \<Rightarrow> Panicked w3
                    | Exited w3 \<Rightarrow> Exited w3
                    | Returned u w3 \<Rightarrow>
                        let duration = clock w3 - start;
                            w4 = w3\<lparr>events := events w3 @ [EvSince]\<rparr>
                        in HTTP x (req_Context (Request w4)) (Request w4)
                             (Writer_Status w4) (FullPath w4) duration w4)))"

subsection \<open>The handler chain of the host framework\<close>

text \<open>
  Modelled from the spec: the HTTP host framework (gin, a collaborator outside src/),
  which "invokes the middleware around the wrapped handler and continues processing
  after it returns" (spec section 6). The chain of the request is the handler function
  of \<^verbatim>\<open>RequestLogger\<close> at position 0 and the wrapped handler at position 1, the last;
  \<open>index\<close> is the position the \<^verbatim>\<open>gin.Context\<close> has reached. \<^verbatim>\<open>Context.Next\<close> advances
  the index and runs the handlers from there to the end of the chain, advancing the index
  after each:
  \<^verbatim>\<open>c.index++; for c.index < len(c.handlers) { c.handlers[c.index](c); c.index++ }\<close>.
  It is called at position 0 or later, so the only handler it can still run is the
  wrapped one, after which the chain has ended (a handler cannot lower the index).
\<close>

definition Context_Next :: "(world \<Rightarrow> unit outcome) \<Rightarrow> world \<Rightarrow> unit outcome" where
  "Context_Next handler w =
     (let w1 = w\<lparr>index := index w + 1\<rparr>
      in if index w1 < 2
         then (case handler w1 of
                 Returned u w2 \<Rightarrow> Returned () (w2\<lparr>index := index w2 + 1\<rparr>)
               | Panicked w2 \<Rightarrow> Panicked w2
               | Exited w2 \<Rightarrow> Exited w2)
         else Returned () w1)"

text \<open>
  Serving one request: the framework resets the index to -1 and calls \<^verbatim>\<open>Next\<close>, which
  advances to position 0 and runs the middleware; the \<^verbatim>\<open>ctx.Next()\<close> of the middleware is
  \<open>Context_Next\<close>. When the middleware returns, the loop advances the index and goes on
  from there, which is what \<open>Context_Next\<close> does.
\<close>

definition serve ::
  "ext \<Rightarrow> string list \<Rightarrow> (world \<Rightarrow> unit outcome) \<Rightarrow> world \<Rightarrow> unit outcome"
where
  "serve x excludes handler w =
     (case RequestLogger x excludes (Context_Next handler) (w\<lparr>index := 0\<rparr>) of
        Returned u w1 \<Rightarrow> Context_Next handler w1
      | Panicked w1 \<Rightarrow> Panicked w1
      | Exited w1 \<Rightarrow> Exited w1)"

section \<open>Notions used to state the properties\<close>

text \<open>
  The argument list of \<^verbatim>\<open>parseLabels\<close> read two at a time, a last unpaired element
  left out: the structural counterpart of the index loop.
\<close>

fun encode_pairs :: "world \<Rightarrow> goval list \<Rightarrow> field list" where
  "encode_pairs w (k # v # rest) = parseLabels_pair w k v @ encode_pairs w rest"
| "encode_pairs w rest = []"

text \<open>The events a call has added to the trace, and the Sink submissions among events.\<close>

definition new_events :: "world \<Rightarrow> 'a outcome \<Rightarrow> event list" where
  "new_events w r = drop (length (events w)) (events (final r))"

fun is_submission :: "event \<Rightarrow> bool" where
  "is_submission (EvSink l m f) = True"
| "is_submission e = False"

definition submissions :: "event list \<Rightarrow> event list" where
  "submissions es = filter is_submission es"

text \<open>
  The words of the specification for the fallback address, "the remote address with its
  port stripped": the address up to, and without, its last colon; an address without a
  colon is left as it is.
\<close>

definition spec_strip_port :: "string \<Rightarrow> string" where
  "spec_strip_port addr =
     (if CHR '':'' \<in> set addr
      then rev (tl (dropWhile (\<lambda>c. c \<noteq> CHR '':'') (rev addr)))
      else addr)"

text \<open>The number a string of decimal digits denotes, to read back what \<open>dec_digits\<close> writes.\<close>

definition dec_value :: "string \<Rightarrow> nat" where
  "dec_value s = foldl (\<lambda>a c. 10 * a + (of_char c - 48)) 0 s"

text \<open>Concrete collaborators and states on which the definitions are run.\<close>

definition test_ext :: ext where
  "test_ext =
     \<lparr>fmt_Sprintf = (\<lambda>format args. format),
      runtime_Caller = (\<lambda>skip. (0, ''main.go'', 10, True)),
      Duration_String = (\<lambda>d. Itoa d @ ''ns''),
      Build = (\<lambda>b. (Some (Logger b), None))\<rparr>"

definition zero_Config :: Config where
  "zero_Config =
     \<lparr>ProjectID = '''', Level = 0, Development = False, KeyRequestID = '''',
      KeyUserID = '''', KeyError = '''', KeyScope = ''''\<rparr>"

definition ready_world :: world where
  "ready_world = init_world\<lparr>zlogger := Some (Logger ZapDevelopment)\<rparr>"

definition test_request :: request where
  "test_request =
     \<lparr>EscapedPath = ''/orders'', Header = Map.empty, RemoteAddr = ''9.9.9.9:443'',
      req_Context = empty_context\<rparr>"

text \<open>A wrapped handler that answers 404 after 1500 ticks of the clock.\<close>

definition test_handler :: "world \<Rightarrow> unit outcome" where
  "test_handler w = Returned () (w\<lparr>Writer_Status := 404, clock := clock w + 1500\<rparr>)"

section \<open>Auxiliary facts\<close>

lemmas Level_defs =
  LevelFirst_def LevelCritical_def LevelError_def LevelWarn_def
  LevelInfo_def LevelDebug_def LevelLast_def

subsection \<open>The loop of \<^verbatim>\<open>parseLabels\<close>\<close>

lemma drop_last_index: "i < length xs \<Longrightarrow> i = length xs - 1 \<Longrightarrow> drop i xs = [xs ! i]"
  using Cons_nth_drop_Suc [of i xs] by simp

lemma drop_two: "i + 1 < length xs \<Longrightarrow> drop i xs = xs ! i # xs ! (i + 1) # drop (i + 2) xs"
  using Cons_nth_drop_Suc [of i xs] Cons_nth_drop_Suc [of "Suc i" xs] by simp

text \<open>From index \<open>i\<close> on, the loop appends the fields of the pairs that remain.\<close>

lemma parseLabels_loop_eq:
  "parseLabels_loop w args i acc = acc @ encode_pairs w (drop i args)"
proof (induction w args i acc rule: parseLabels_loop.induct)
  case (1 w args i flds)
  show ?case
  proof (cases "i < length args")
    case False
    then show ?thesis by (subst parseLabels_loop.simps) simp
  next
    case True
    show ?thesis
    proof (cases "i = length args - 1")
      case True
      with \<open>i < length args\<close> show ?thesis
        by (subst parseLabels_loop.simps) (simp add: drop_last_index)
    next
      case False
      with True have lt: "i + 1 < length args" by arith
      have "parseLabels_loop w args i flds =
            parseLabels_loop w args (i + 2) (flds @ parseLabels_pair w (args ! i) (args ! (i + 1)))"
        using True False by (subst parseLabels_loop.simps) simp
      also have "\<dots> = (flds @ parseLabels_pair w (args ! i) (args ! (i + 1)))
                        @ encode_pairs w (drop (i + 2) args)"
        using "1.IH" [OF True False] by simp
      finally show ?thesis by (simp add: drop_two [OF lt])
    qed
  qed
qed

lemma elems_parseLabels: "elems (parseLabels w args) = encode_pairs w args"
  by (cases args) (simp_all add: parseLabels_def elems_def parseLabels_loop_eq)

lemma encode_pairs_append:
  "even (length pre) \<Longrightarrow> encode_pairs w (pre @ post) = encode_pairs w pre @ encode_pairs w post"
  by (induction w pre rule: encode_pairs.induct) auto

lemma parseLabels_split:
  "even (length pre) \<Longrightarrow>
   elems (parseLabels w (pre @ key # val # post)) =
   elems (parseLabels w pre) @ parseLabels_pair w key val @ elems (parseLabels w post)"
  by (simp add: elems_parseLabels encode_pairs_append)

subsection \<open>Decimal rendering\<close>

text \<open>
  \<open>dec_digits\<close> writes the canonical decimal numeral: it reads back as the number, and it
  has no leading zero unless the number is zero. Converting an \<^verbatim>\<open>int32\<close> or \<^verbatim>\<open>int64\<close>
  to \<^verbatim>\<open>int\<close> keeps its signed value.
\<close>

lemma digit_char_code: "d < 10 \<Longrightarrow> of_char (digit_char d) = (48 + d :: nat)"
proof -
  assume "d < 10"
  then have "d \<in> {0, 1, 2, 3, 4, 5, 6, 7, 8, 9}" by auto
  then show ?thesis by (auto simp add: digit_char_def)
qed

lemma dec_value_snoc: "dec_value (s @ [c]) = 10 * dec_value s + (of_char c - 48)"
  by (simp add: dec_value_def)

lemma dec_value_dec_digits: "dec_value (dec_digits n) = n"
proof (induction n rule: dec_digits.induct)
  case (1 n)
  show ?case
  proof (cases "n < 10")
    case True
    then show ?thesis
      by (subst dec_digits.simps) (simp add: dec_value_def digit_char_code)
  next
    case False
    then have "dec_value (dec_digits n) = 10 * dec_value (dec_digits (n div 10)) + (n mod 10)"
      by (subst dec_digits.simps) (simp add: dec_value_snoc digit_char_code)
    with 1 False show ?thesis by simp
  qed
qed

lemma dec_digits_nonempty: "dec_digits n \<noteq> []"
  by (subst dec_digits.simps) simp

lemma dec_digits_no_leading_zero: "0 < n \<Longrightarrow> hd (dec_digits n) \<noteq> CHR ''0''"
proof (induction n rule: dec_digits.induct)
  case (1 n)
  show ?case
  proof (cases "n < 10")
    case True
    with 1(2) have "n \<in> {1, 2, 3, 4, 5, 6, 7, 8, 9}" by auto
    then show ?thesis
      by (subst dec_digits.simps) (auto simp add: digit_char_def)
  next
    case False
    then have "0 < n div 10" by simp
    with 1(1) False have "hd (dec_digits (n div 10)) \<noteq> CHR ''0''" by simp
    with False show ?thesis
      by (subst dec_digits.simps) (simp add: dec_digits_nonempty)
  qed
qed

lemma sint_int_conversion:
  "sint (scast (v :: 32 word) :: 64 word) = sint v"
  "sint (scast (u :: 64 word) :: 64 word) = sint u"
  by (simp_all add: sint_up_scast is_up)

section \<open>The field encoder\<close>

text \<open>
  C4. On an argument list of odd length \<^verbatim>\<open>parseLabels\<close> drops the last, unpaired
  element: its fields are those of the list without its last element. In particular a
  list of one element gives the fields of the empty list, which are none.
\<close>

theorem parseLabels_odd_length:
  "(odd (length args) \<longrightarrow>
      elems (parseLabels w args) = elems (parseLabels w (butlast args)))
   \<and> elems (parseLabels w [k]) = elems (parseLabels w [])
   \<and> elems (parseLabels w []) = []"
proof (intro conjI impI)
  assume odd: "odd (length args)"
  then have ne: "args \<noteq> []" by auto
  then have "args = butlast args @ [last args]" by simp
  moreover from odd ne have "even (length (butlast args))" by simp
  ultimately have "encode_pairs w args = encode_pairs w (butlast args)"
    using encode_pairs_append [of "butlast args" w "[last args]"] by simp
  then show "elems (parseLabels w args) = elems (parseLabels w (butlast args))"
    by (simp add: elems_parseLabels)
next
  show "elems (parseLabels w [k]) = elems (parseLabels w [])"
    by (simp add: elems_parseLabels)
next
  show "elems (parseLabels w []) = []"
    by (simp add: elems_parseLabels)
qed

theorem parseLabels_odd_length_witness:
  "odd (length [VString ''a'', VString ''b'', VString ''c''])
   \<and> elems (parseLabels init_world [VString ''a'', VString ''b'', VString ''c''])
       = [Label ''a'' ''b'']
   \<and> elems (parseLabels init_world [VString ''a'', VString ''b'']) = [Label ''a'' ''b'']
   \<and> parseLabels init_world [VString ''c''] = Some []
   \<and> parseLabels init_world [] = None"
  using parseLabels_odd_length
    [of "[VString ''a'', VString ''b'', VString ''c'']" init_world "VString ''c''"]
  by (simp add: elems_def parseLabels_pair_def init_world_def parseLabels_def
      parseLabels_loop.simps)

text \<open>
  C5. A pair whose key is the string \<^verbatim>\<open>"error"\<close> or the configured error-key name
  contributes, at its place in the output, exactly one field under the configured
  error-key name carrying the \<^verbatim>\<open>Error()\<close> message when its value is error-shaped, and
  no field at all when it is not.
\<close>

theorem parseLabels_error_key:
  assumes "even (length pre)" and "k = ''error'' \<or> k = keyError w"
  shows "elems (parseLabels w (pre @ [VString k, val] @ post)) =
         elems (parseLabels w pre)
         @ (case val of VOther (OError m d) \<Rightarrow> [Label (keyError w) m] | _ \<Rightarrow> [])
         @ elems (parseLabels w post)"
  using assms
  by (auto simp add: parseLabels_split parseLabels_pair_def split: goval.splits other.splits)

theorem parseLabels_error_key_witness:
  "even (length ([] :: goval list)) \<and> (''error'' = ''error'' \<or> ''error'' = keyError init_world)
   \<and> elems (parseLabels init_world [VString ''error'', VOther (OError ''disk full'' ''disk full'')])
       = [Label ''err'' ''disk full'']
   \<and> elems (parseLabels init_world [VString ''error'', VString ''not-an-error'']) = []
   \<and> elems (parseLabels init_world [VString ''err'', VOther (OError ''disk full'' ''disk full'')])
       = [Label ''err'' ''disk full'']"
  using parseLabels_error_key [of "[]" "''error''" init_world "VOther (OError ''disk full'' ''disk full'')" "[]"]
    parseLabels_error_key [of "[]" "''error''" init_world "VString ''not-an-error''" "[]"]
    parseLabels_error_key [of "[]" "''err''" init_world "VOther (OError ''disk full'' ''disk full'')" "[]"]
  by (simp add: elems_def parseLabels_def init_world_def)

section \<open>Severity filtering in \<^verbatim>\<open>zlog\<close>\<close>

lemma zlog_filtered:
  "\<not> (LevelFirst < L \<and> L < LevelLast \<and> L \<le> logLevel w) \<Longrightarrow>
   zlog x ctx L format args kvs w = Returned () w"
  by (auto simp add: zlog_def not_less not_le)

lemma new_events_append [simp]:
  "new_events w (Returned a (w\<lparr>events := events w @ es\<rparr>)) = es"
  "new_events w (Exited (w\<lparr>events := events w @ es\<rparr>)) = es"
  "new_events w (Panicked (w\<lparr>events := events w @ es\<rparr>)) = es"
  "new_events w (Returned a w) = []"
  by (simp_all add: new_events_def)

text \<open>What an admitted call does, with the logger in place.\<close>

lemma zlog_admitted:
  assumes "LevelFirst < L" "L < LevelLast" "L \<le> logLevel w" "zlogger w = Some l"
  shows "\<exists>lvl msg flds.
           new_events w (zlog x ctx L format args kvs w) =
             [EvSprintf format args, EvSpanContext, EvSpanContext, EvCaller 2,
              EvCtxValue (keyUserID w), EvCtxValue (keyScope w)]
             @ EvSink lvl msg flds # (if L = LevelCritical then [EvSync, EvExit] else [])
           \<and> (lvl = ZFatal) = (L = LevelCritical)"
  using assms
  by (auto simp add: zlog_def Let_def zlogger_log_def not_less not_le new_events_def Level_defs)

text \<open>
  C1. With the logger in place, a call of \<^verbatim>\<open>zlog\<close> at level \<open>L\<close> under the threshold
  \<open>logLevel\<close> submits a record to the Sink, and then exactly one, if and only if \<open>L\<close> lies
  strictly between \<open>LevelFirst\<close> and \<open>LevelLast\<close> and \<open>L \<le> logLevel\<close> in the numeric
  order of the levels. Otherwise nothing is submitted; at or outside the sentinels the
  call returns with the state untouched, whatever the threshold.
\<close>

theorem zlog_emits_iff:
  assumes "zlogger w \<noteq> None"
  shows "((\<exists>lvl msg flds.
            submissions (new_events w (zlog x ctx L format args kvs w)) = [EvSink lvl msg flds])
          = (LevelFirst < L \<and> L < LevelLast \<and> L \<le> logLevel w))
         \<and> (\<not> (LevelFirst < L \<and> L < LevelLast \<and> L \<le> logLevel w) \<longrightarrow>
              submissions (new_events w (zlog x ctx L format args kvs w)) = [])
         \<and> (L \<le> LevelFirst \<or> LevelLast \<le> L \<longrightarrow>
              zlog x ctx L format args kvs w = Returned () w)"
proof -
  from assms obtain l where l: "zlogger w = Some l" by auto
  let ?adm = "LevelFirst < L \<and> L < LevelLast \<and> L \<le> logLevel w"
  have no: "\<not> ?adm \<Longrightarrow> zlog x ctx L format args kvs w = Returned () w"
    by (rule zlog_filtered)
  have yes: "?adm \<Longrightarrow> \<exists>lvl msg flds.
      submissions (new_events w (zlog x ctx L format args kvs w)) = [EvSink lvl msg flds]"
  proof -
    assume a: ?adm
    from a l zlog_admitted [of L w l x ctx format args kvs]
    obtain lvl msg flds where
      "new_events w (zlog x ctx L format args kvs w) =
             [EvSprintf format args, EvSpanContext, EvSpanContext, EvCaller 2,
              EvCtxValue (keyUserID w), EvCtxValue (keyScope w)]
             @ EvSink lvl msg flds # (if L = LevelCritical then [EvSync, EvExit] else [])"
      by blast
    then have "submissions (new_events w (zlog x ctx L format args kvs w)) = [EvSink lvl msg flds]"
      by (simp add: submissions_def)
    then show ?thesis by blast
  qed
  have none: "\<not> ?adm \<Longrightarrow> submissions (new_events w (zlog x ctx L format args kvs w)) = []"
    using no by (simp add: submissions_def)
  show ?thesis
  proof (intro conjI impI)
    show "(\<exists>lvl msg flds.
            submissions (new_events w (zlog x ctx L format args kvs w)) = [EvSink lvl msg flds])
          = ?adm"
      using yes none by (cases ?adm) auto
  next
    assume "\<not> ?adm" then show "submissions (new_events w (zlog x ctx L format args kvs w)) = []"
      by (rule none)
  next
    assume "L \<le> LevelFirst \<or> LevelLast \<le> L"
    then have "\<not> ?adm" by auto
    then show "zlog x ctx L format args kvs w = Returned () w" by (rule no)
  qed
qed

theorem zlog_emits_iff_witness:
  "zlogger ready_world \<noteq> None
   \<and> submissions (new_events ready_world
         (zlog test_ext empty_context LevelWarn ''disk almost full'' [] [] ready_world))
       = [EvSink ZWarn ''disk almost full''
            [Label ''request_id'' ''00000000000000000000000000000000'',
             SourceLocation (0, ''main.go'', 10, True)]]
   \<and> submissions (new_events (ready_world\<lparr>logLevel := LevelError\<rparr>)
         (zlog test_ext empty_context LevelWarn ''disk almost full'' [] []
            (ready_world\<lparr>logLevel := LevelError\<rparr>))) = []
   \<and> zlog test_ext empty_context LevelLast ''x'' [] [] ready_world = Returned () ready_world"
  using zlog_emits_iff [of ready_world test_ext empty_context LevelWarn "''disk almost full''" "[]" "[]"]
  by (simp add: ready_world_def init_world_def test_ext_def empty_context_def zlog_def
      zlogger_log_def Level_defs new_events_def submissions_def parseLabels_def elems_def)

text \<open>
  C7. A call whose level is not admitted under the threshold returns at once: the state
  is the one it was given and no event is added to the trace, so there is no Sink
  submission, no read of the trace provider, no message formatting and no stack walk.
  (The witness shows the events an admitted call records.)
\<close>

theorem zlog_filtered_no_work:
  assumes "\<not> (LevelFirst < L \<and> L < LevelLast \<and> L \<le> logLevel w)"
  shows "zlog x ctx L format args kvs w = Returned () w
         \<and> new_events w (zlog x ctx L format args kvs w) = []"
  using zlog_filtered [OF assms] by simp

theorem zlog_filtered_no_work_witness:
  "\<not> (LevelFirst < LevelDebug \<and> LevelDebug < LevelLast
       \<and> LevelDebug \<le> logLevel (ready_world\<lparr>logLevel := LevelInfo\<rparr>))
   \<and> Debug test_ext empty_context ''cache miss'' [] (ready_world\<lparr>logLevel := LevelInfo\<rparr>)
       = Returned () (ready_world\<lparr>logLevel := LevelInfo\<rparr>)
   \<and> new_events (ready_world\<lparr>logLevel := LevelInfo\<rparr>)
         (Info test_ext empty_context ''cache miss'' [] (ready_world\<lparr>logLevel := LevelInfo\<rparr>))
       = [EvSprintf ''cache miss'' [], EvSpanContext, EvSpanContext, EvCaller 2,
          EvCtxValue ''user_id'', EvCtxValue ''scope'',
          EvSink ZInfo ''cache miss''
            [Label ''request_id'' ''00000000000000000000000000000000'',
             SourceLocation (0, ''main.go'', 10, True)]]"
  using zlog_filtered_no_work
    [of LevelDebug "ready_world\<lparr>logLevel := LevelInfo\<rparr>" test_ext empty_context "''cache miss''" "[]" "[]"]
  by (simp add: ready_world_def init_world_def test_ext_def empty_context_def zlog_def
      zlogger_log_def Level_defs new_events_def parseLabels_def elems_def Debug_def Info_def)

section \<open>The fatal level\<close>

text \<open>
  C2 (as stated, refuted). Initialised from a configuration whose \<^verbatim>\<open>Level\<close> is left at
  zero, the package has a logger and the threshold \<open>LevelFirst\<close>; a call of
  \<^verbatim>\<open>Critical\<close> then returns to its caller with the state untouched: no record is
  submitted, the Sink is not flushed and the process does not terminate.
\<close>

theorem Critical_filtered_counterexample:
  "zlogger (final (Initialize test_ext (Some zero_Config) init_world)) \<noteq> None
   \<and> logLevel (final (Initialize test_ext (Some zero_Config) init_world)) = LevelFirst
   \<and> Critical test_ext empty_context ''out of disk'' []
         (final (Initialize test_ext (Some zero_Config) init_world))
       = Returned () (final (Initialize test_ext (Some zero_Config) init_world))"
  by (simp add: Initialize_def test_ext_def zero_Config_def init_world_def Critical_def
      zlog_def Level_defs)

text \<open>
  C2 (amended). With the logger in place and a threshold of at least \<open>LevelCritical\<close>,
  a call of \<^verbatim>\<open>Critical\<close> does the correlation work, submits one record to the Sink at
  fatal severity, after which the Sink is flushed once and the process terminates. Under a
  threshold below \<open>LevelCritical\<close>, which is \<open>LevelFirst\<close>, the call returns with the
  state untouched.
\<close>

theorem Critical_fatal_when_admitted:
  assumes "zlogger w \<noteq> None"
  shows "(LevelCritical \<le> logLevel w \<longrightarrow>
            (\<exists>flds.
               Critical x ctx format args w =
               Exited (w\<lparr>events := events w @
                 [EvSprintf format args, EvSpanContext, EvSpanContext, EvCaller 2,
                  EvCtxValue (keyUserID w), EvCtxValue (keyScope w),
                  EvSink ZFatal (fmt_Sprintf x format args) flds, EvSync, EvExit]\<rparr>)))
         \<and> (logLevel w < LevelCritical \<longrightarrow>
              logLevel w = LevelFirst \<and> Critical x ctx format args w = Returned () w)"
proof (intro conjI impI)
  assume "LevelCritical \<le> logLevel w"
  with assms show "\<exists>flds.
               Critical x ctx format args w =
               Exited (w\<lparr>events := events w @
                 [EvSprintf format args, EvSpanContext, EvSpanContext, EvCaller 2,
                  EvCtxValue (keyUserID w), EvCtxValue (keyScope w),
                  EvSink ZFatal (fmt_Sprintf x format args) flds, EvSync, EvExit]\<rparr>)"
    by (auto simp add: Critical_def zlog_def Let_def zlogger_log_def Level_defs
        word_le_nat_alt word_less_nat_alt intro!: exI)
next
  assume lt: "logLevel w < LevelCritical"
  then show "logLevel w = LevelFirst"
    by (simp add: Level_defs word_less_1)
next
  assume lt: "logLevel w < LevelCritical"
  then have "\<not> (LevelFirst < LevelCritical \<and> LevelCritical < LevelLast \<and> LevelCritical \<le> logLevel w)"
    by (simp add: not_le)
  then show "Critical x ctx format args w = Returned () w"
    unfolding Critical_def by (rule zlog_filtered)
qed

theorem Critical_fatal_when_admitted_witness:
  "zlogger ready_world \<noteq> None \<and> LevelCritical \<le> logLevel ready_world
   \<and> Critical test_ext empty_context ''out of disk'' [] ready_world =
       Exited (ready_world\<lparr>events :=
         [EvSprintf ''out of disk'' [], EvSpanContext, EvSpanContext, EvCaller 2,
          EvCtxValue ''user_id'', EvCtxValue ''scope'',
          EvSink ZFatal ''out of disk''
            [Label ''request_id'' ''00000000000000000000000000000000'',
             SourceLocation (0, ''main.go'', 10, True)],
          EvSync, EvExit]\<rparr>)
   \<and> logLevel (ready_world\<lparr>logLevel := 0\<rparr>) < LevelCritical
   \<and> Critical test_ext empty_context ''out of disk'' [] (ready_world\<lparr>logLevel := 0\<rparr>)
       = Returned () (ready_world\<lparr>logLevel := 0\<rparr>)"
  using Critical_fatal_when_admitted
      [of ready_world test_ext empty_context "''out of disk''" "[]"]
    Critical_fatal_when_admitted
      [of "ready_world\<lparr>logLevel := 0\<rparr>" test_ext empty_context "''out of disk''" "[]"]
  by (simp add: ready_world_def init_world_def test_ext_def empty_context_def Critical_def
      zlog_def zlogger_log_def Level_defs parseLabels_def elems_def
      word_le_nat_alt word_less_nat_alt)

section \<open>Initialisation\<close>

text \<open>
  C3. \<^verbatim>\<open>Initialize\<close> with a configuration that is not nil returns (it does not panic),
  and whatever the Sink's constructor answers, the threshold, the project id and the four
  key names are those of the configuration, empty or zero as they may be. When the
  configuration's \<^verbatim>\<open>Level\<close> is zero the threshold is \<open>LevelFirst\<close>, and from that state
  every leveled call, at whatever level and \<^verbatim>\<open>Critical\<close> included, returns with the
  state untouched: no record is emitted.
\<close>

theorem Initialize_replaces:
  "(\<exists>err w'.
      Initialize x (Some c) w = Returned err w'
      \<and> logLevel w' = Level c \<and> projectID w' = ProjectID c
      \<and> keyRequestID w' = KeyRequestID c \<and> keyUserID w' = KeyUserID c
      \<and> keyError w' = KeyError c \<and> keyScope w' = KeyScope c
      \<and> (Level c = 0 \<longrightarrow>
            logLevel w' = LevelFirst
            \<and> (\<forall>x' ctx L format args kvs. zlog x' ctx L format args kvs w' = Returned () w')
            \<and> (\<forall>x' ctx format args. Critical x' ctx format args w' = Returned () w')))"
proof -
  have "\<exists>err w'. Initialize x (Some c) w = Returned err w'"
    by (simp add: Initialize_def Let_def case_prod_beta)
  then obtain err w' where r: "Initialize x (Some c) w = Returned err w'"
    by blast
  from r have g: "logLevel w' = Level c" "projectID w' = ProjectID c"
      "keyRequestID w' = KeyRequestID c" "keyUserID w' = KeyUserID c"
      "keyError w' = KeyError c" "keyScope w' = KeyScope c"
    by (auto simp add: Initialize_def Let_def case_prod_beta split: if_splits)
  have z: "Level c = 0 \<Longrightarrow> zlog x' ctx L format args kvs w' = Returned () w'"
    for x' ctx L format args kvs
  proof -
    assume "Level c = 0"
    with g have "logLevel w' = 0" by simp
    then have "\<not> (LevelFirst < L \<and> L < LevelLast \<and> L \<le> logLevel w')"
      by (auto simp add: Level_defs)
    then show ?thesis by (rule zlog_filtered)
  qed
  show ?thesis
    using r g z by (auto simp add: Critical_def Level_defs)
qed

theorem Initialize_replaces_witness:
  "Level zero_Config = 0
   \<and> Initialize test_ext (Some zero_Config) init_world =
       Returned None
         (init_world\<lparr>logLevel := LevelFirst, keyRequestID := '''', keyUserID := '''',
            keyError := '''', keyScope := '''', zlogger := Some (Logger ZapDevelopment)\<rparr>)
   \<and> Error test_ext empty_context ''lost'' []
         (final (Initialize test_ext (Some zero_Config) init_world))
       = Returned () (final (Initialize test_ext (Some zero_Config) init_world))"
  using Initialize_replaces [of test_ext zero_Config init_world]
  by (simp add: Initialize_def test_ext_def zero_Config_def init_world_def Error_def
      zlog_def Level_defs)

section \<open>The field encoder: values by type\<close>

text \<open>
  C6 (as stated, refuted). Not every value under a key other than the error key yields a
  field: a nil pointer to a byte sequence is dropped, and so is any pair whose key is not
  a string, a string value included.
\<close>

theorem parseLabels_value_lost_counterexample:
  "elems (parseLabels init_world [VString ''payload'', VBytesPtr None]) = []
   \<and> elems (parseLabels init_world [VInt 7, VString ''seven'']) = []"
  by (simp add: elems_def parseLabels_def parseLabels_loop.simps parseLabels_pair_def
      init_world_def)

text \<open>
  C6 (amended). A pair whose key is a string other than \<^verbatim>\<open>"error"\<close> and the configured
  error-key name contributes, at its place in the output, according to the type of its
  value: a string as it is; a pointer to a string or to a byte sequence with the value it
  points to, and nothing when nil; a byte sequence as the string of its bytes; an
  \<^verbatim>\<open>int\<close>, \<^verbatim>\<open>int32\<close> or \<^verbatim>\<open>int64\<close>, and through the generic rendering an \<^verbatim>\<open>int8\<close> or
  \<^verbatim>\<open>int16\<close>, as the decimal numeral of its signed value; any other value, nil and
  error values included, in its \<^verbatim>\<open>%+v\<close> rendering. A pair whose key is not a string
  contributes nothing.
\<close>

theorem parseLabels_value_types:
  assumes "even (length pre)"
  shows "(k \<noteq> ''error'' \<and> k \<noteq> keyError w \<longrightarrow>
            elems (parseLabels w (pre @ [VString k, val] @ post)) =
            elems (parseLabels w pre)
            @ (case val of
                 VString s \<Rightarrow> [Label k s]
               | VStringPtr None \<Rightarrow> []
               | VStringPtr (Some s) \<Rightarrow> [Label k s]
               | VBytes b \<Rightarrow> [Label k b]
               | VBytesPtr None \<Rightarrow> []
               | VBytesPtr (Some b) \<Rightarrow> [Label k b]
               | VInt i \<Rightarrow> [Label k (Itoa (sint i))]
               | VInt32 i \<Rightarrow> [Label k (Itoa (sint i))]
               | VInt64 i \<Rightarrow> [Label k (Itoa (sint i))]
               | VOther (OInt8 i) \<Rightarrow> [Label k (Itoa (sint i))]
               | VOther (OInt16 i) \<Rightarrow> [Label k (Itoa (sint i))]
               | VOther ONil \<Rightarrow> [Label k ''<nil>'']
               | VOther (OError m d) \<Rightarrow> [Label k d]
               | VOther (OOpaque d) \<Rightarrow> [Label k d])
            @ elems (parseLabels w post))
         \<and> ((\<forall>s. key \<noteq> VString s) \<longrightarrow>
              elems (parseLabels w (pre @ [key, val] @ post)) =
              elems (parseLabels w pre) @ elems (parseLabels w post))"
proof (intro conjI impI)
  assume "k \<noteq> ''error'' \<and> k \<noteq> keyError w"
  then have "parseLabels_pair w (VString k) val =
      (case val of
                 VString s \<Rightarrow> [Label k s]
               | VStringPtr None \<Rightarrow> []
               | VStringPtr (Some s) \<Rightarrow> [Label k s]
               | VBytes b \<Rightarrow> [Label k b]
               | VBytesPtr None \<Rightarrow> []
               | VBytesPtr (Some b) \<Rightarrow> [Label k b]
               | VInt i \<Rightarrow> [Label k (Itoa (sint i))]
               | VInt32 i \<Rightarrow> [Label k (Itoa (sint i))]
               | VInt64 i \<Rightarrow> [Label k (Itoa (sint i))]
               | VOther (OInt8 i) \<Rightarrow> [Label k (Itoa (sint i))]
               | VOther (OInt16 i) \<Rightarrow> [Label k (Itoa (sint i))]
               | VOther ONil \<Rightarrow> [Label k ''<nil>'']
               | VOther (OError m d) \<Rightarrow> [Label k d]
               | VOther (OOpaque d) \<Rightarrow> [Label k d])"
    by (simp add: parseLabels_pair_def sint_int_conversion
        split: goval.splits other.splits option.splits)
  with assms show "elems (parseLabels w (pre @ [VString k, val] @ post)) =
            elems (parseLabels w pre)
            @ (case val of
                 VString s \<Rightarrow> [Label k s]
               | VStringPtr None \<Rightarrow> []
               | VStringPtr (Some s) \<Rightarrow> [Label k s]
               | VBytes b \<Rightarrow> [Label k b]
               | VBytesPtr None \<Rightarrow> []
               | VBytesPtr (Some b) \<Rightarrow> [Label k b]
               | VInt i \<Rightarrow> [Label k (Itoa (sint i))]
               | VInt32 i \<Rightarrow> [Label k (Itoa (sint i))]
               | VInt64 i \<Rightarrow> [Label k (Itoa (sint i))]
               | VOther (OInt8 i) \<Rightarrow> [Label k (Itoa (sint i))]
               | VOther (OInt16 i) \<Rightarrow> [Label k (Itoa (sint i))]
               | VOther ONil \<Rightarrow> [Label k ''<nil>'']
               | VOther (OError m d) \<Rightarrow> [Label k d]
               | VOther (OOpaque d) \<Rightarrow> [Label k d])
            @ elems (parseLabels w post)"
    by (simp add: parseLabels_split)
next
  assume "\<forall>s. key \<noteq> VString s"
  then have "parseLabels_pair w key val = []"
    by (cases key) (simp_all add: parseLabels_pair_def)
  with assms show "elems (parseLabels w (pre @ [key, val] @ post)) =
              elems (parseLabels w pre) @ elems (parseLabels w post)"
    by (simp add: parseLabels_split)
qed

theorem parseLabels_value_types_witness:
  "even (length [VString ''a'', VString ''b''])
   \<and> ''n'' \<noteq> ''error'' \<and> ''n'' \<noteq> keyError init_world
   \<and> elems (parseLabels init_world [VString ''a'', VString ''b'', VString ''n'', VInt32 42])
       = [Label ''a'' ''b'', Label ''n'' ''42'']
   \<and> (\<forall>s. VInt 7 \<noteq> VString s)
   \<and> elems (parseLabels init_world [VString ''a'', VString ''b'', VInt 7, VString ''seven''])
       = [Label ''a'' ''b'']"
  using parseLabels_value_types
      [of "[VString ''a'', VString ''b'']" "''n''" init_world "VInt32 42" "[]" "VInt 7"]
    parseLabels_value_types
      [of "[VString ''a'', VString ''b'']" "''n''" init_world "VString ''seven''" "[]" "VInt 7"]
  by (simp add: elems_def parseLabels_def parseLabels_loop.simps parseLabels_pair_def
      init_world_def Itoa_def dec_digits.simps digit_char_def)

section \<open>The access-log middleware\<close>

lemma canonical_keys:
  "CanonicalMIMEHeaderKey ''X-Forwarded-For'' = ''X-Forwarded-For''"
  "CanonicalMIMEHeaderKey ''x-forwarded-for'' = ''X-Forwarded-For''"
  "CanonicalMIMEHeaderKey ''true-client-ip'' = ''True-Client-Ip''"
  by code_simp+

lemma dom_foldl_upd:
  "dom (foldl (\<lambda>m s. m(s \<mapsto> ())) m xs) = dom m \<union> set xs"
  by (induction xs arbitrary: m) auto

lemma requestLogExcludes_iff:
  "(requestLogExcludes excludes url = Some ()) = (url \<in> set excludes)"
  "(requestLogExcludes excludes url = None) = (url \<notin> set excludes)"
proof -
  have m: "(url \<in> dom (requestLogExcludes excludes)) = (url \<in> set excludes)"
    by (simp add: requestLogExcludes_def dom_foldl_upd)
  show s: "(requestLogExcludes excludes url = Some ()) = (url \<in> set excludes)"
    using m unfolding dom_def by auto
  show "(requestLogExcludes excludes url = None) = (url \<notin> set excludes)"
    using s by (cases "requestLogExcludes excludes url") auto
qed

lemma Split_nonempty: "Split s sep \<noteq> []"
  by (induction s) (auto split: list.splits)

lemma Split_first: "sep \<notin> set host \<Longrightarrow> Split (host @ sep # rest) sep = host # Split rest sep"
  by (induction host) auto

lemma remoteIP_total: "\<exists>ip. remoteIP req = Some ip"
  using Split_nonempty [of "RemoteAddr req" "CHR '':''"]
  by (auto simp add: remoteIP_def Let_def split: list.splits)

lemma spec_strip_port_host_port:
  assumes "CHR '':'' \<notin> set port"
  shows "spec_strip_port (host @ CHR '':'' # port) = host"
proof -
  have "dropWhile (\<lambda>c. c \<noteq> CHR '':'') (rev port @ CHR '':'' # rev host) = CHR '':'' # rev host"
    using assms by (subst dropWhile_append2) auto
  then show ?thesis by (simp add: spec_strip_port_def)
qed

text \<open>
  The two examples of the specification, and the addresses on which the code does strip
  the port: those whose host part has no colon.
\<close>

lemma remoteIP_examples:
  "remoteIP (test_request\<lparr>Header := [''X-Forwarded-For'' \<mapsto> [''1.2.3.4, 5.6.7.8'']]\<rparr>)
     = Some ''1.2.3.4''"
  "remoteIP test_request = Some ''9.9.9.9''"
  by (simp_all add: remoteIP_def test_request_def Header_Get_def canonical_keys)

lemma remoteIP_host_port:
  assumes "Header_Get (Header req) ''X-Forwarded-For'' = ''''"
    and "RemoteAddr req = host @ CHR '':'' # port"
    and "CHR '':'' \<notin> set host" and "CHR '':'' \<notin> set port"
  shows "remoteIP req = Some host" and "spec_strip_port (RemoteAddr req) = host"
  using assms by (simp_all add: remoteIP_def Split_first spec_strip_port_host_port)

text \<open>
  C8. The client address is the first comma-separated component of
  \<^verbatim>\<open>X-Forwarded-For\<close> when that is not empty (lemma \<open>remoteIP_examples\<close>), and it is
  added to the request under \<^verbatim>\<open>x-forwarded-for\<close> and \<^verbatim>\<open>true-client-ip\<close> (lemma
  \<open>RequestLogger_handler_sees\<close> below). The fallback, however, is the remote address cut
  at its first colon, which is the address without its port only when the host part has
  no colon (lemma \<open>remoteIP_host_port\<close>). For a request without the header that arrives
  from the IPv6 address \<^verbatim>\<open>[::1]:8080\<close> the code derives \<^verbatim>\<open>[\<close>, where the address with
  its port stripped is \<^verbatim>\<open>[::1]\<close>.
\<close>

theorem remoteIP_bracketed_address:
  "remoteIP (test_request\<lparr>RemoteAddr := ''[::1]:8080''\<rparr>) = Some ''[''
   \<and> spec_strip_port ''[::1]:8080'' = ''[::1]''"
  by (simp add: remoteIP_def test_request_def Header_Get_def spec_strip_port_def)

text \<open>
  C9 (as stated, refuted). For a request whose escaped path is on the exclusion list the
  handler function of the middleware returns at once, and the framework goes on along
  the chain: the wrapped handler is run. Here the path \<^verbatim>\<open>/healthz\<close> is excluded, and
  the request is answered by the wrapped handler, with its status 404 and its 1500 ticks
  on the clock.
\<close>

theorem serve_excluded_counterexample:
  "EscapedPath (Request (ready_world\<lparr>Request := test_request\<lparr>EscapedPath := ''/healthz''\<rparr>\<rparr>))
     \<in> set [''/healthz'', ''/metrics'']
   \<and> serve test_ext [''/healthz'', ''/metrics''] test_handler
         (ready_world\<lparr>Request := test_request\<lparr>EscapedPath := ''/healthz''\<rparr>\<rparr>)
       = Returned ()
           (ready_world\<lparr>Request := test_request\<lparr>EscapedPath := ''/healthz''\<rparr>,
              Writer_Status := 404, clock := 1500, index := 2\<rparr>)"
  by (simp add: serve_def Context_Next_def RequestLogger_def requestLogExcludes_def
      ready_world_def init_world_def test_request_def test_handler_def Let_def)

lemma RequestLogger_returns_on_excluded:
  "EscapedPath (Request w) \<in> set excludes \<Longrightarrow> RequestLogger x excludes Next w = Returned () w"
  by (simp add: RequestLogger_def requestLogExcludes_iff)

text \<open>
  C9 (amended). For a request whose escaped path is a member of the exclusion list the
  handler function of the middleware returns at once with the state it was given: it
  does not call \<^verbatim>\<open>ctx.Next()\<close>, the headers are not rewritten, the clock is not read and
  no record is produced; no event at all is added to the trace. The framework then runs
  the wrapped handler, once, on the request as it arrived, and the outcome of serving the
  request is the outcome of the wrapped handler.
\<close>

theorem RequestLogger_excluded:
  assumes "EscapedPath (Request w) \<in> set excludes"
  shows "RequestLogger x excludes Next w = Returned () w
         \<and> new_events w (RequestLogger x excludes Next w) = []
         \<and> serve x excludes handler w =
             (case handler (w\<lparr>index := 1\<rparr>) of
                Returned u w' \<Rightarrow> Returned () (w'\<lparr>index := index w' + 1\<rparr>)
              | Panicked w' \<Rightarrow> Panicked w'
              | Exited w' \<Rightarrow> Exited w')"
proof (intro conjI)
  show r: "RequestLogger x excludes Next w = Returned () w"
    using assms by (rule RequestLogger_returns_on_excluded)
  then show "new_events w (RequestLogger x excludes Next w) = []"
    by (simp add: new_events_def)
  have "RequestLogger x excludes (Context_Next handler) (w\<lparr>index := 0\<rparr>)
        = Returned () (w\<lparr>index := 0\<rparr>)"
    using assms by (intro RequestLogger_returns_on_excluded) simp
  then show "serve x excludes handler w =
             (case handler (w\<lparr>index := 1\<rparr>) of
                Returned u w' \<Rightarrow> Returned () (w'\<lparr>index := index w' + 1\<rparr>)
              | Panicked w' \<Rightarrow> Panicked w'
              | Exited w' \<Rightarrow> Exited w')"
    by (simp add: serve_def Context_Next_def)
qed

theorem RequestLogger_excluded_witness:
  "EscapedPath (Request (ready_world\<lparr>Request := test_request\<lparr>EscapedPath := ''/healthz''\<rparr>\<rparr>))
     \<in> set [''/healthz'', ''/metrics'']
   \<and> RequestLogger test_ext [''/healthz'', ''/metrics''] test_handler
         (ready_world\<lparr>Request := test_request\<lparr>EscapedPath := ''/healthz''\<rparr>\<rparr>)
       = Returned () (ready_world\<lparr>Request := test_request\<lparr>EscapedPath := ''/healthz''\<rparr>\<rparr>)
   \<and> events (final (serve test_ext [''/healthz'', ''/metrics''] test_handler
         (ready_world\<lparr>Request := test_request\<lparr>EscapedPath := ''/healthz''\<rparr>\<rparr>))) = []
   \<and> Writer_Status (final (serve test_ext [''/healthz'', ''/metrics''] test_handler
         (ready_world\<lparr>Request := test_request\<lparr>EscapedPath := ''/healthz''\<rparr>\<rparr>))) = 404
   \<and> take 2 (new_events (ready_world\<lparr>Request := test_request\<rparr>)
         (RequestLogger test_ext [''/healthz'', ''/metrics''] test_handler
            (ready_world\<lparr>Request := test_request\<rparr>)))
       = [EvNow, EvNext]"
  using RequestLogger_excluded
    [of "ready_world\<lparr>Request := test_request\<lparr>EscapedPath := ''/healthz''\<rparr>\<rparr>"
        "[''/healthz'', ''/metrics'']" test_ext test_handler test_handler]
  by (simp add: ready_world_def init_world_def test_request_def test_handler_def test_ext_def
      RequestLogger_def requestLogExcludes_def remoteIP_def Header_Get_def Header_Add_def
      canonical_keys HTTP_def zlogger_log_def new_events_def empty_context_def Let_def
      serve_def Context_Next_def)

text \<open>
  What the wrapped handler is given, observed by a handler that stops at once: the derived
  address has been added under both header names. \<^verbatim>\<open>Header.Add\<close> appends, so a value the
  client sent under \<^verbatim>\<open>True-Client-Ip\<close> stays the first one.
\<close>

lemma RequestLogger_handler_sees:
  assumes "EscapedPath (Request w) \<notin> set excludes"
  shows "\<exists>ip w2. remoteIP (Request w) = Some ip
           \<and> RequestLogger x excludes Exited w = Exited w2
           \<and> Request w2 = (Request w)\<lparr>Header :=
                 Header_Add (Header_Add (Header (Request w)) ''x-forwarded-for'' ip)
                   ''true-client-ip'' ip\<rparr>
           \<and> Header_Get (Header (Request w2)) ''true-client-ip''
               = (case Header (Request w) ''True-Client-Ip'' of
                    None \<Rightarrow> ip | Some [] \<Rightarrow> ip | Some (v # vs) \<Rightarrow> v)
           \<and> events w2 = events w @ [EvNow, EvNext]"
proof -
  obtain ip where ip: "remoteIP (Request w) = Some ip"
    using remoteIP_total by blast
  with assms show ?thesis
    by (auto simp add: RequestLogger_def requestLogExcludes_iff Let_def Header_Add_def
        Header_Get_def canonical_keys split: option.splits list.splits)
qed

text \<open>Without a logger the one Sink call of \<^verbatim>\<open>HTTP\<close> panics.\<close>

lemma HTTP_nil_logger:
  "zlogger w = None \<Longrightarrow> \<exists>w'. HTTP x ctx req res path latency w = Panicked w'"
  by (simp add: HTTP_def Let_def zlogger_log_def)

text \<open>
  C10. For a request that is not excluded the wrapped handler is run on the state with
  the derived address added under both headers and the clock read. When it returns, and
  the logger is in place, the middleware reads the clock again and submits exactly one
  record through \<^verbatim>\<open>HTTP\<close>, at informational severity: the HTTP payload built from the
  request, the response status and the latency, followed by the correlation fields. No
  threshold appears: the record is submitted whatever \<open>logLevel\<close> is (the witness runs
  under the threshold \<open>LevelFirst\<close>, where \<^verbatim>\<open>Info\<close> emits nothing). Without a logger
  the call on the Sink panics; when the handler panics or exits, so does the middleware,
  and nothing is submitted.
\<close>

theorem RequestLogger_access_log:
  assumes "EscapedPath (Request w) \<notin> set excludes"
  shows "\<exists>ip. remoteIP (Request w) = Some ip
           \<and> (case Next (w\<lparr>Request := (Request w)\<lparr>Header :=
                             Header_Add (Header_Add (Header (Request w)) ''x-forwarded-for'' ip)
                               ''true-client-ip'' ip\<rparr>,
                           events := events w @ [EvNow, EvNext]\<rparr>) of
                 Returned u w3 \<Rightarrow>
                   (zlogger w3 \<noteq> None \<longrightarrow>
                      RequestLogger x excludes Next w =
                      Returned () (w3\<lparr>events := events w3 @
                        [EvSince, EvSpanContext, EvSpanContext,
                         EvCtxValue (keyUserID w3), EvCtxValue (keyScope w3),
                         EvSink ZInfo ''request log''
                           ([HTTP_field \<lparr>pl_request = Request w3, pl_status = Writer_Status w3,
                                pl_latency = Duration_String x (clock w3 - clock w)\<rparr>,
                             Label (keyRequestID w3) (traceID (req_Context (Request w3))),
                             Label keyRemoteIP
                               (Header_Get (Header (Request w3)) ''true-client-ip''),
                             Label keyRoute (FullPath w3)]
                            @ (if projectID w3 \<noteq> ''''
                               then [TraceContext (traceID (req_Context (Request w3)))
                                       (spanID (req_Context (Request w3))) True (projectID w3)]
                               else [])
                            @ (case ctx_Value (req_Context (Request w3)) (keyUserID w3) of
                                 VString userID \<Rightarrow> [Label (keyUserID w3) userID] | _ \<Rightarrow> [])
                            @ (case ctx_Value (req_Context (Request w3)) (keyScope w3) of
                                 VString scope \<Rightarrow> [Label (keyScope w3) scope] | _ \<Rightarrow> []))]\<rparr>))
                   \<and> (zlogger w3 = None \<longrightarrow>
                        (\<exists>w4. RequestLogger x excludes Next w = Panicked w4))
               | Panicked w3 \<Rightarrow> RequestLogger x excludes Next w = Panicked w3
               | Exited w3 \<Rightarrow> RequestLogger x excludes Next w = Exited w3)"
proof -
  obtain ip where ip: "remoteIP (Request w) = Some ip"
    using remoteIP_total by blast
  define w2 where "w2 = w\<lparr>Request := (Request w)\<lparr>Header :=
        Header_Add (Header_Add (Header (Request w)) ''x-forwarded-for'' ip) ''true-client-ip'' ip\<rparr>,
      events := events w @ [EvNow, EvNext]\<rparr>"
  have run: "RequestLogger x excludes Next w =
      (case Next w2 of
         Panicked w3 \<Rightarrow> Panicked w3
       | Exited w3 \<Rightarrow> Exited w3
       | Returned u w3 \<Rightarrow>
           HTTP x (req_Context (Request w3)) (Request w3) (Writer_Status w3) (FullPath w3)
             (clock w3 - clock w) (w3\<lparr>events := events w3 @ [EvSince]\<rparr>))"
    using assms ip
    by (simp add: RequestLogger_def requestLogExcludes_iff Let_def w2_def split: outcome.splits)
  have yes: "zlogger w3 \<noteq> None \<Longrightarrow>
      HTTP x ctx req res path latency (w3\<lparr>events := events w3 @ [EvSince]\<rparr>) =
         Returned () (w3\<lparr>events := events w3 @
           [EvSince, EvSpanContext, EvSpanContext, EvCtxValue (keyUserID w3),
            EvCtxValue (keyScope w3),
            EvSink ZInfo ''request log''
              ([HTTP_field \<lparr>pl_request = req, pl_status = res,
                   pl_latency = Duration_String x latency\<rparr>,
                Label (keyRequestID w3) (traceID ctx),
                Label keyRemoteIP (Header_Get (Header req) ''true-client-ip''),
                Label keyRoute path]
               @ (if projectID w3 \<noteq> ''''
                  then [TraceContext (traceID ctx) (spanID ctx) True (projectID w3)] else [])
               @ (case ctx_Value ctx (keyUserID w3) of
                    VString userID \<Rightarrow> [Label (keyUserID w3) userID] | _ \<Rightarrow> [])
               @ (case ctx_Value ctx (keyScope w3) of
                    VString scope \<Rightarrow> [Label (keyScope w3) scope] | _ \<Rightarrow> []))]\<rparr>)"
    for w3 ctx req res path latency
    by (auto simp add: HTTP_def Let_def zlogger_log_def split: goval.splits)
  have no: "zlogger w3 = None \<Longrightarrow>
      \<exists>w4. HTTP x ctx req res path latency (w3\<lparr>events := events w3 @ [EvSince]\<rparr>) = Panicked w4"
    for w3 ctx req res path latency
    by (rule HTTP_nil_logger) simp
  have "case Next w2 of
                 Returned u w3 \<Rightarrow>
                   (zlogger w3 \<noteq> None \<longrightarrow>
                      RequestLogger x excludes Next w =
                      Returned () (w3\<lparr>events := events w3 @
                        [EvSince, EvSpanContext, EvSpanContext,
                         EvCtxValue (keyUserID w3), EvCtxValue (keyScope w3),
                         EvSink ZInfo ''request log''
                           ([HTTP_field \<lparr>pl_request = Request w3, pl_status = Writer_Status w3,
                                pl_latency = Duration_String x (clock w3 - clock w)\<rparr>,
                             Label (keyRequestID w3) (traceID (req_Context (Request w3))),
                             Label keyRemoteIP
                               (Header_Get (Header (Request w3)) ''true-client-ip''),
                             Label keyRoute (FullPath w3)]
                            @ (if projectID w3 \<noteq> ''''
                               then [TraceContext (traceID (req_Context (Request w3)))
                                       (spanID (req_Context (Request w3))) True (projectID w3)]
                               else [])
                            @ (case ctx_Value (req_Context (Request w3)) (keyUserID w3) of
                                 VString userID \<Rightarrow> [Label (keyUserID w3) userID] | _ \<Rightarrow> [])
                            @ (case ctx_Value (req_Context (Request w3)) (keyScope w3) of
                                 VString scope \<Rightarrow> [Label (keyScope w3) scope] | _ \<Rightarrow> []))]\<rparr>))
                   \<and> (zlogger w3 = None \<longrightarrow>
                        (\<exists>w4. RequestLogger x excludes Next w = Panicked w4))
               | Panicked w3 \<Rightarrow> RequestLogger x excludes Next w = Panicked w3
               | Exited w3 \<Rightarrow> RequestLogger x excludes Next w = Exited w3"
  proof (cases "Next w2")
    case (Returned u w3)
    show ?thesis
    proof (cases "zlogger w3 = None")
      case True
      with Returned no show ?thesis by (simp add: run)
    next
      case False
      with Returned yes show ?thesis by (simp add: run)
    qed
  next
    case (Panicked w3)
    then show ?thesis by (simp add: run)
  next
    case (Exited w3)
    then show ?thesis by (simp add: run)
  qed
  with ip show ?thesis
    unfolding w2_def by blast
qed

theorem RequestLogger_access_log_witness:
  "EscapedPath (Request (ready_world\<lparr>logLevel := LevelFirst, Request := test_request\<rparr>))
     \<notin> set [''/healthz'']
   \<and> submissions (new_events (ready_world\<lparr>logLevel := LevelFirst, Request := test_request\<rparr>)
         (RequestLogger test_ext [''/healthz''] test_handler
            (ready_world\<lparr>logLevel := LevelFirst, Request := test_request\<rparr>)))
       = [EvSink ZInfo ''request log''
            [HTTP_field
               \<lparr>pl_request = test_request\<lparr>Header :=
                    [''X-Forwarded-For'' \<mapsto> [''9.9.9.9''], ''True-Client-Ip'' \<mapsto> [''9.9.9.9'']]\<rparr>,
                pl_status = 404, pl_latency = ''1500ns''\<rparr>,
             Label ''request_id'' ''00000000000000000000000000000000'',
             Label ''remote_ip'' ''9.9.9.9'',
             Label ''route'' '''']]
   \<and> Info test_ext empty_context ''served'' []
         (ready_world\<lparr>logLevel := LevelFirst, Request := test_request\<rparr>)
       = Returned () (ready_world\<lparr>logLevel := LevelFirst, Request := test_request\<rparr>)"
  using RequestLogger_access_log
    [where w = "ready_world\<lparr>logLevel := LevelFirst, Request := test_request\<rparr>"
       and excludes = "[''/healthz'']" and Next = test_handler and x = test_ext]
  by (simp add: ready_world_def init_world_def test_request_def test_handler_def test_ext_def
      RequestLogger_def requestLogExcludes_def remoteIP_def Header_Get_def Header_Add_def
      canonical_keys HTTP_def zlogger_log_def new_events_def empty_context_def submissions_def
      keyRemoteIP_def keyRoute_def Itoa_def dec_digits.simps digit_char_def
      Info_def zlog_def Level_defs Let_def)

end
